theory Spec2Isabelle
  imports Complex_Main "HOL-Library.Sublist" "HOL-Library.AList"
begin

section \<open>Values, errors and the consensus-layer network\<close>

text \<open>
  The model covers \<^verbatim>\<open>scripts/metrics-sample2.mjs\<close>. A JavaScript number is
  modelled as a \<^typ>\<open>real\<close>: the values the samplers compute with (slots, epochs,
  counts, balances in gwei, millisecond timestamps) are integers far below \<open>2^53\<close>,
  where the sums, differences and products of doubles are exact and the floor and the
  rounding of a quotient are those of the exact quotient. The theorems on values
  computed from fetched numbers carry the bounds under which this holds. \<^verbatim>\<open>NaN\<close> and the infinities
  are not represented; where the source could produce them (a division by zero) the
  theorems carry the hypothesis that excludes it.
\<close>

text \<open>An exception value: the constructor name and the message.\<close>

datatype error = JsError (kind: string) (message: string)

text \<open>\<^verbatim>\<open>const MISSING = -1;\<close>\<close>

definition MISSING :: real where
  "MISSING = - 1"

text \<open>Decimal rendering of a status code inside a template string.\<close>

definition digit_char :: "nat \<Rightarrow> char" where
  "digit_char d = char_of (48 + d)"

fun show_nat :: "nat \<Rightarrow> string" where
  "show_nat n = (if n < 10 then [digit_char n] else show_nat (n div 10) @ [digit_char (n mod 10)])"

declare show_nat.simps [simp del]

text \<open>
  One entry of a validator list, as \<^verbatim>\<open>sampleValidators\<close> reads it: the two
  fields, \<open>None\<close> where the field is \<^verbatim>\<open>null\<close> or absent (the case \<^verbatim>\<open>??\<close>
  falls through). A \<^verbatim>\<open>null\<close> entry has both fields absent. The beacon API writes
  balances, slots and epochs as decimal strings of unsigned integers; a field holds the
  natural number that \<^verbatim>\<open>Number(...)\<close> makes of such a string.
\<close>

record validator =
  balance :: "nat option"
  effective_balance :: "nat option"

text \<open>
  The \<^verbatim>\<open>data\<close> member of a response body when it is an object, by the four paths
  the network sampler reads: \<^verbatim>\<open>header.message.slot\<close>, \<^verbatim>\<open>slot\<close>,
  \<^verbatim>\<open>current_justified.epoch\<close> and \<^verbatim>\<open>finalized.epoch\<close>, each the natural
  number read by \<^verbatim>\<open>Number(...)\<close> and \<open>None\<close> where the optional chain yields
  \<^verbatim>\<open>undefined\<close>.
\<close>

record dobj =
  header_message_slot :: "nat option"
  slot :: "nat option"
  current_justified_epoch :: "nat option"
  finalized_epoch :: "nat option"

text \<open>
  \<^verbatim>\<open>json.data\<close>: a falsy value (absent, \<^verbatim>\<open>null\<close>, \<^verbatim>\<open>0\<close>, \<^verbatim>\<open>""\<close>),
  an array of validator entries, or an object. Any other truthy value behaves in every
  sampler as an object without the four members.
\<close>

datatype jdata = Falsy | DArr "validator list" | DObj dobj

text \<open>The decoded body: \<^verbatim>\<open>null\<close>, or a value whose \<^verbatim>\<open>data\<close> member is read.\<close>

datatype json = JNull | Json (data: jdata)

text \<open>
  What \<^verbatim>\<open>fetch\<close> does for one request: it rejects (connection refused, reset), or
  it resolves to a response with a status code whose body either decodes
  (\<^verbatim>\<open>res.json()\<close>) or makes the decoder throw. \<open>elapsed\<close> is the difference of the
  two \<^verbatim>\<open>Date.now()\<close> readings around the call.
\<close>

datatype fetched =
    Rejects error
  | Response (status: nat) (body: "error + json") (elapsed: nat)

text \<open>
  The network answers a request for a URL depending on the requests made before it
  (the same endpoint may fail now and answer later). The list of URLs requested so far
  is the state that the calls thread.
\<close>

type_synonym net = "string list \<Rightarrow> string \<Rightarrow> fetched"

record reply =
  json :: json
  latency :: nat

text \<open>\<^verbatim>\<open>url.replace(/\/$/, '')\<close>: one trailing slash is removed.\<close>

definition strip_slash :: "string \<Rightarrow> string" where
  "strip_slash url = (if url \<noteq> [] \<and> last url = CHR ''/'' then butlast url else url)"

definition request_url :: "string \<Rightarrow> string \<Rightarrow> string" where
  "request_url url path = strip_slash url @ path"

text \<open>\<^verbatim>\<open>res.ok\<close>: the status is in the range 200 to 299.\<close>

definition res_ok :: "nat \<Rightarrow> bool" where
  "res_ok st = (200 \<le> st \<and> st \<le> 299)"

text \<open>
  \<^verbatim>\<open>beaconGet(url, path)\<close>: one request, recorded in the request log whatever its
  outcome; a rejected fetch, a status that is not ok and an undecodable body all throw.
\<close>

definition beaconGet :: "net \<Rightarrow> string \<Rightarrow> string \<Rightarrow> string list \<Rightarrow> (error + reply) \<times> string list" where
  "beaconGet nw url path reqs =
     (let target = request_url url path;
          reqs' = reqs @ [target]
      in case nw reqs target of
           Rejects e \<Rightarrow> (Inl e, reqs')
         | Response st b ms \<Rightarrow>
             if \<not> res_ok st then (Inl (JsError ''Error'' (path @ '' HTTP '' @ show_nat st)), reqs')
             else (case b of
                     Inl e \<Rightarrow> (Inl e, reqs')
                   | Inr j \<Rightarrow> (Inr \<lparr>json = j, latency = ms\<rparr>, reqs')))"

text \<open>
  \<^verbatim>\<open>beaconGetWithFailover(path)\<close>: the \<^verbatim>\<open>for ... of\<close> loop over
  \<^verbatim>\<open>CL_ENDPOINTS\<close> (here the parameter \<open>endpoints\<close>). The first success is returned
  from inside the loop; a failure is caught and ignored; after the loop the function
  throws an error whose message is built from the path.
\<close>

fun beaconGetWithFailover ::
  "net \<Rightarrow> string list \<Rightarrow> string \<Rightarrow> string list \<Rightarrow> (error + reply) \<times> string list" where
  "beaconGetWithFailover nw [] path reqs =
     (Inl (JsError ''Error'' (''All CL endpoints failed for '' @ path)), reqs)"
| "beaconGetWithFailover nw (endpoint # rest) path reqs =
     (case beaconGet nw endpoint path reqs of
        (Inr r, reqs') \<Rightarrow> (Inr r, reqs')
      | (Inl e, reqs') \<Rightarrow> beaconGetWithFailover nw rest path reqs')"

section \<open>The output files\<close>

text \<open>
  A row is the array of columns handed to \<^verbatim>\<open>appendCsvRow\<close>; a file is the list of
  rows appended to it so far (the header line is not counted). The files are the five
  module-level paths.
\<close>

datatype cell = Num real | Str string

type_synonym row = "cell list"

datatype sink = EL_CSV | VAL_CSV | NET_CSV | PERF_CL_CSV | PERF_EL_CSV

record world =
  requests :: "string list"
  files :: "sink \<Rightarrow> row list"

definition appendCsvRow :: "sink \<Rightarrow> row \<Rightarrow> world \<Rightarrow> world" where
  "appendCsvRow file columns w = w\<lparr>files := (files w)(file := files w file @ [columns])\<rparr>"

section \<open>The validator-balance sampler\<close>

text \<open>\<^verbatim>\<open>Number(v?.balance ?? v?.effective_balance ?? -1)\<close>\<close>

definition balance_number :: "validator \<Rightarrow> real" where
  "balance_number v =
     (case balance v of
        Some b \<Rightarrow> real b
      | None \<Rightarrow> (case effective_balance v of Some b \<Rightarrow> real b | None \<Rightarrow> - 1))"

text \<open>
  \<^verbatim>\<open>(json.data || [])\<close> followed by \<^verbatim>\<open>.map\<close>: reading \<^verbatim>\<open>data\<close> of
  \<^verbatim>\<open>null\<close> and calling \<^verbatim>\<open>map\<close> on an object that is not an array both throw a
  TypeError.
\<close>

definition validator_entries :: "json \<Rightarrow> error + validator list" where
  "validator_entries j =
     (case j of
        JNull \<Rightarrow> Inl (JsError ''TypeError'' ''Cannot read properties of null'')
      | Json Falsy \<Rightarrow> Inr []
      | Json (DArr vs) \<Rightarrow> Inr vs
      | Json (DObj ob) \<Rightarrow> Inl (JsError ''TypeError'' ''map is not a function''))"

text \<open>\<^verbatim>\<open>.map(v => Number(...)).filter(n => n >= 0)\<close>\<close>

definition balances_of :: "validator list \<Rightarrow> real list" where
  "balances_of vs = filter (\<lambda>n. n \<ge> 0) (map balance_number vs)"

text \<open>
  The body of \<^verbatim>\<open>if (arr.length) { ... }\<close>: the loop adds the balances up from 0 and
  \<^verbatim>\<open>Math.round\<close> rounds the quotient to the nearest integer, a half upwards (which
  is what \<^const>\<open>round\<close> does). \<open>avgBal\<close> keeps its initial value \<open>-1\<close> when the array
  is empty. The sum and the quotient are those of the real numbers; the loop's sum of
  doubles is the same number, and \<^verbatim>\<open>Math.round\<close> of the quotient of doubles the same
  integer, as long as the sum of the balances is below \<open>2^52\<close>.
\<close>

definition mean_rounded :: "real list \<Rightarrow> real" where
  "mean_rounded arr =
     (if length arr \<noteq> 0
      then of_int (round (fold (\<lambda>b acc. acc + b) arr 0 / real (length arr)))
      else - 1)"

text \<open>The \<^verbatim>\<open>try { ... } catch { }\<close> around the call and the computation.\<close>

definition avgBal_of :: "error + reply \<Rightarrow> real" where
  "avgBal_of r =
     (case r of
        Inl e \<Rightarrow> - 1
      | Inr rep \<Rightarrow>
          (case validator_entries (json rep) of
             Inl e \<Rightarrow> - 1
           | Inr vs \<Rightarrow> mean_rounded (balances_of vs)))"

text \<open>
  \<^verbatim>\<open>sampleValidators()\<close>: \<open>ts_ms\<close> is the reading of \<^verbatim>\<open>unixMs()\<close> at the start;
  \<^verbatim>\<open>let source = 'any'\<close> is never assigned again.
\<close>

definition sampleValidators :: "net \<Rightarrow> string list \<Rightarrow> real \<Rightarrow> world \<Rightarrow> world" where
  "sampleValidators nw endpoints ts_ms w =
     (let source = ''any'';
          (r, reqs') = beaconGetWithFailover nw endpoints
                         ''/eth/v1/beacon/states/head/validators?status=active'' (requests w);
          avgBal = avgBal_of r
      in appendCsvRow VAL_CSV [Num ts_ms, Str source, Num avgBal] (w\<lparr>requests := reqs'\<rparr>))"

section \<open>The network sampler\<close>

text \<open>
  \<^verbatim>\<open>const d = json.data || {}\<close>: a falsy \<^verbatim>\<open>data\<close> and an array both behave as an
  object without any of the four members.
\<close>

definition data_object :: "json \<Rightarrow> error + dobj" where
  "data_object j =
     (case j of
        JNull \<Rightarrow> Inl (JsError ''TypeError'' ''Cannot read properties of null'')
      | Json (DObj ob) \<Rightarrow> Inr ob
      | Json other \<Rightarrow> Inr \<lparr>header_message_slot = None, slot = None,
                            current_justified_epoch = None, finalized_epoch = None\<rparr>)"

text \<open>\<^verbatim>\<open>Number(d?.header?.message?.slot ?? d?.slot ?? -1)\<close>, inside its try block.\<close>

definition headSlot_of :: "error + reply \<Rightarrow> real" where
  "headSlot_of r =
     (case r of
        Inl e \<Rightarrow> - 1
      | Inr rep \<Rightarrow>
          (case data_object (json rep) of
             Inl e \<Rightarrow> - 1
           | Inr d \<Rightarrow>
               (case header_message_slot d of
                  Some s \<Rightarrow> real s
                | None \<Rightarrow> (case slot d of Some s \<Rightarrow> real s | None \<Rightarrow> - 1))))"

text \<open>The pair \<open>(justEpoch, finEpoch)\<close> after the second try block.\<close>

definition checkpoints_of :: "error + reply \<Rightarrow> real \<times> real" where
  "checkpoints_of r =
     (case r of
        Inl e \<Rightarrow> (- 1, - 1)
      | Inr rep \<Rightarrow>
          (case data_object (json rep) of
             Inl e \<Rightarrow> (- 1, - 1)
           | Inr d \<Rightarrow>
               ((case current_justified_epoch d of Some x \<Rightarrow> real x | None \<Rightarrow> - 1),
                (case finalized_epoch d of Some x \<Rightarrow> real x | None \<Rightarrow> - 1))))"

text \<open>
  The four derived values. \<open>spe\<close> is \<^verbatim>\<open>SLOTS_PER_EPOCH\<close>, a number read from digits
  (or 6), so \<^verbatim>\<open>Number.isFinite(SLOTS_PER_EPOCH)\<close> holds and is left out. For
  \<open>spe = 0\<close> JavaScript divides to \<^verbatim>\<open>Infinity\<close> or \<^verbatim>\<open>NaN\<close>, which the model
  does not represent: the theorems about \<open>curEpoch_of\<close> assume \<open>0 < spe\<close>. The floor
  of the quotient of doubles is the floor of the exact quotient for a head slot below
  \<open>2^53\<close>, and the product is exact while it is below \<open>2^53\<close>.
\<close>

definition curEpoch_of :: "real \<Rightarrow> real \<Rightarrow> real" where
  "curEpoch_of headSlot spe = (if headSlot \<ge> 0 then of_int \<lfloor>headSlot / spe\<rfloor> else - 1)"

definition finSlot_of :: "real \<Rightarrow> real \<Rightarrow> real" where
  "finSlot_of finEpoch spe = (if finEpoch \<ge> 0 then finEpoch * spe else - 1)"

definition finGapSlots_of :: "real \<Rightarrow> real \<Rightarrow> real \<Rightarrow> real" where
  "finGapSlots_of headSlot finEpoch spe =
     (let finSlot = finSlot_of finEpoch spe
      in if headSlot \<ge> 0 \<and> finSlot \<ge> 0 then max 0 (headSlot - finSlot) else - 1)"

definition finGapEpochs_of :: "real \<Rightarrow> real \<Rightarrow> real \<Rightarrow> real" where
  "finGapEpochs_of headSlot finEpoch spe =
     (let curEpoch = curEpoch_of headSlot spe
      in if curEpoch \<ge> 0 \<and> finEpoch \<ge> 0 then max 0 (curEpoch - finEpoch) else - 1)"

text \<open>
  The value \<^verbatim>\<open>countStatus\<close> returns for the outcome of its failover call:
  \<^verbatim>\<open>Array.isArray(json?.data) ? json.data.length : -1\<close>, and \<open>-1\<close> from the catch.
\<close>

definition count_of :: "error + reply \<Rightarrow> real" where
  "count_of r =
     (case r of
        Inl e \<Rightarrow> - 1
      | Inr rep \<Rightarrow>
          (case json rep of
             Json (DArr vs) \<Rightarrow> real (length vs)
           | other \<Rightarrow> - 1))"

definition countStatus :: "net \<Rightarrow> string list \<Rightarrow> string \<Rightarrow> string list \<Rightarrow> real \<times> string list" where
  "countStatus nw endpoints statuses reqs =
     (let (r, reqs') = beaconGetWithFailover nw endpoints
                         (''/eth/v1/beacon/states/head/validators?status='' @ statuses) reqs
      in (count_of r, reqs'))"

text \<open>
  \<^verbatim>\<open>[cPendInit, cPendQueue, cActOngo, cActExit].filter(n => n >= 0).reduce((a, b) => a + b, 0) || -1\<close>:
  the operator \<^verbatim>\<open>||\<close> replaces a falsy left operand, and the number 0 is falsy.
\<close>

definition total_of :: "real \<Rightarrow> real \<Rightarrow> real \<Rightarrow> real \<Rightarrow> real" where
  "total_of cPendInit cPendQueue cActOngo cActExit =
     (let s = fold (\<lambda>b a. a + b) (filter (\<lambda>n. n \<ge> 0) [cPendInit, cPendQueue, cActOngo, cActExit]) 0
      in if s = 0 then - 1 else s)"

definition activationQueueLen_of :: "real \<Rightarrow> real \<Rightarrow> real" where
  "activationQueueLen_of cPendInit cPendQueue =
     (if cPendInit \<ge> 0 \<and> cPendQueue \<ge> 0 then cPendInit + cPendQueue else - 1)"

text \<open>
  A point of a Prometheus query result: the \<^verbatim>\<open>instance\<close> label of its metric and
  \<^verbatim>\<open>Number(r.value[1])\<close>. A metric without the label behaves as one labelled
  \<^verbatim>\<open>undefined\<close>, which is a key of neither table. \<^verbatim>\<open>queryPrometheus\<close> catches
  every failure and returns the empty array for it.
\<close>

record point =
  instance_label :: string
  pvalue :: real

text \<open>\<^verbatim>\<open>getParticipationRate()\<close> on the result of its query.\<close>

definition getParticipationRate :: "point list \<Rightarrow> real" where
  "getParticipationRate res = (if length res > 0 then pvalue (res ! 0) else - 1)"

text \<open>
  \<^verbatim>\<open>sampleNetwork()\<close>: six failover calls in sequence, the derivations, the
  participation query (its result is the parameter \<open>part\<close>) and one row.
\<close>

definition sampleNetwork :: "net \<Rightarrow> string list \<Rightarrow> real \<Rightarrow> real \<Rightarrow> point list \<Rightarrow> world \<Rightarrow> world" where
  "sampleNetwork nw endpoints spe ts_ms part w =
     (let (r1, q1) = beaconGetWithFailover nw endpoints ''/eth/v1/beacon/headers/head'' (requests w);
          headSlot = headSlot_of r1;
          (r2, q2) = beaconGetWithFailover nw endpoints
                       ''/eth/v1/beacon/states/head/finality_checkpoints'' q1;
          (justEpoch, finEpoch) = checkpoints_of r2;
          curEpoch = curEpoch_of headSlot spe;
          finGapSlots = finGapSlots_of headSlot finEpoch spe;
          finGapEpochs = finGapEpochs_of headSlot finEpoch spe;
          (cPendInit, q3) = countStatus nw endpoints ''pending_initialized'' q2;
          (cPendQueue, q4) = countStatus nw endpoints ''pending_queued'' q3;
          (cActOngo, q5) = countStatus nw endpoints ''active_ongoing'' q4;
          (cActExit, q6) = countStatus nw endpoints ''active_exiting'' q5;
          total = total_of cPendInit cPendQueue cActOngo cActExit;
          activationQueueLen = activationQueueLen_of cPendInit cPendQueue;
          exitQueueLen = cActExit;
          activeValidatorCount = cActOngo;
          participationRate = getParticipationRate part
      in appendCsvRow NET_CSV
           [Num ts_ms,
            Num headSlot, Num curEpoch, Num justEpoch, Num finEpoch, Num finGapSlots, Num finGapEpochs,
            Num total, Num activationQueueLen, Num exitQueueLen, Num activeValidatorCount,
            Num participationRate]
           (w\<lparr>requests := q6\<rparr>))"

section \<open>The performance sampler and its instance reconciler\<close>

text \<open>The static table from Prometheus instance labels to container names.\<close>

definition PROM_INSTANCE_MAP :: "(string \<times> string) list" where
  "PROM_INSTANCE_MAP =
     [(''host.docker.internal:8080'', ''prysm-1''),
      (''host.docker.internal:8081'', ''prysm-2''),
      (''host.docker.internal:8082'', ''prysm-3''),
      (''host.docker.internal:6060'', ''geth-1''),
      (''host.docker.internal:6061'', ''geth-2''),
      (''host.docker.internal:6062'', ''geth-3'')]"

text \<open>
  The nine property names \<^verbatim>\<open>m1\<close> to \<^verbatim>\<open>m9\<close> of a record, and a record as the
  value stored under each of them.
\<close>

datatype mkey = M1 | M2 | M3 | M4 | M5 | M6 | M7 | M8 | M9

type_synonym metrics = "mkey \<Rightarrow> real"

text \<open>
  The object \<^verbatim>\<open>data\<close>: container name to record, in insertion order, which is the
  order \<^verbatim>\<open>Object.entries\<close> walks it in.
\<close>

type_synonym records = "(string \<times> metrics) list"

definition expectedContainers :: "string list" where
  "expectedContainers = map snd PROM_INSTANCE_MAP"

text \<open>The loop that stores a record of nine missing values for every expected container.\<close>

definition init_data :: records where
  "init_data = fold (\<lambda>c d. AList.update c (\<lambda>k. MISSING) d) expectedContainers []"

text \<open>
  \<^verbatim>\<open>PROM_INSTANCE_MAP[instance] || instance\<close>: every value of the table is truthy.
  (A label that names an inherited property of objects, such as \<^verbatim>\<open>toString\<close>,
  yields a function here, under whose text \<^verbatim>\<open>data\<close> has no record; it is dropped
  like any other label without a record.)
\<close>

definition getContainer :: "point \<Rightarrow> string" where
  "getContainer r =
     (case map_of PROM_INSTANCE_MAP (instance_label r) of
        Some c \<Rightarrow> c
      | None \<Rightarrow> instance_label r)"

text \<open>
  The body of the \<^verbatim>\<open>forEach\<close> in \<^verbatim>\<open>update\<close>: the guard \<^verbatim>\<open>if (data[c])\<close> and
  the assignment \<^verbatim>\<open>data[c][key] = Number(r.value[1])\<close>.
\<close>

definition update_point :: "mkey \<Rightarrow> point \<Rightarrow> records \<Rightarrow> records" where
  "update_point key r d =
     (let c = getContainer r
      in if map_of d c \<noteq> None
         then AList.map_entry c (\<lambda>m. m(key := pvalue r)) d
         else d)"

definition update :: "point list \<Rightarrow> mkey \<Rightarrow> records \<Rightarrow> records" where
  "update res key d = fold (update_point key) res d"

text \<open>The results of the nine queries handed to \<^verbatim>\<open>Promise.all\<close>, in order.\<close>

record perf_results =
  query1 :: "point list"
  query2 :: "point list"
  query3 :: "point list"
  query4 :: "point list"
  query5 :: "point list"
  query6 :: "point list"
  query7 :: "point list"
  query8 :: "point list"
  query9 :: "point list"

text \<open>
  \<^verbatim>\<open>const [res1, res2, res3, res4, res5, res6, res7] = await Promise.all([...])\<close>:
  the array pattern has seven names, so seven variables are declared and the last two
  results are bound to no name.
\<close>

definition bindings :: "perf_results \<Rightarrow> (string \<times> point list) list" where
  "bindings rs =
     [(''res1'', query1 rs), (''res2'', query2 rs), (''res3'', query3 rs), (''res4'', query4 rs),
      (''res5'', query5 rs), (''res6'', query6 rs), (''res7'', query7 rs)]"

text \<open>
  The nine calls \<^verbatim>\<open>update(res1, 'm1'); ... update(res9, 'm9');\<close> in order. The file is
  an ES module; evaluating an identifier that no declaration binds throws a
  ReferenceError, which ends the function.
\<close>

definition update_calls :: "(string \<times> mkey) list" where
  "update_calls =
     [(''res1'', M1), (''res2'', M2), (''res3'', M3), (''res4'', M4), (''res5'', M5),
      (''res6'', M6), (''res7'', M7), (''res8'', M8), (''res9'', M9)]"

fun run_updates :: "(string \<times> point list) list \<Rightarrow> (string \<times> mkey) list \<Rightarrow> records \<Rightarrow> error + records" where
  "run_updates env [] d = Inr d"
| "run_updates env ((name, key) # calls) d =
     (case map_of env name of
        None \<Rightarrow> Inl (JsError ''ReferenceError'' (name @ '' is not defined''))
      | Some res \<Rightarrow> run_updates env calls (update res key d))"

text \<open>The loop that writes one row for every entry of \<^verbatim>\<open>data\<close>.\<close>

definition write_row :: "real \<Rightarrow> string \<times> metrics \<Rightarrow> world \<Rightarrow> world" where
  "write_row ts_ms entry w =
     (let container = fst entry; metrics = snd entry
      in if prefix ''prysm'' container
         then appendCsvRow PERF_CL_CSV
                [Num ts_ms, Str container, Num (metrics M1), Num (metrics M2), Num (metrics M3),
                 Num (metrics M4), Num (metrics M5), Num (metrics M6), Num (metrics M7),
                 Num (metrics M8), Num (metrics M9)] w
         else if prefix ''geth'' container
         then appendCsvRow PERF_EL_CSV
                [Num ts_ms, Str container, Num (metrics M1), Num (metrics M2), Num (metrics M3),
                 Num (metrics M6), Num (metrics M8), Num (metrics M9)] w
         else w)"

definition write_rows :: "real \<Rightarrow> records \<Rightarrow> world \<Rightarrow> world" where
  "write_rows ts_ms d w = fold (write_row ts_ms) d w"

text \<open>
  \<^verbatim>\<open>samplePerfMetrics()\<close>: the promise it returns is fulfilled (\<open>Inr\<close>) or rejected
  with the exception thrown (\<open>Inl\<close>); the rows are written after the nine calls.
\<close>

definition samplePerfMetrics :: "real \<Rightarrow> perf_results \<Rightarrow> world \<Rightarrow> (error + unit) \<times> world" where
  "samplePerfMetrics ts_ms rs w =
     (case run_updates (bindings rs) update_calls init_data of
        Inl e \<Rightarrow> (Inl e, w)
      | Inr d \<Rightarrow> (Inr (), write_rows ts_ms d w))"

section \<open>The scheduling loop\<close>

text \<open>\<^verbatim>\<open>Promise.allSettled\<close> resolves to one outcome per promise and never rejects.\<close>

datatype 'a settled = Fulfilled 'a | Rejected error

definition allSettled :: "(error + 'a) list \<Rightarrow> error + 'a settled list" where
  "allSettled ps = Inr (map (\<lambda>p. case p of Inl e \<Rightarrow> Rejected e | Inr v \<Rightarrow> Fulfilled v) ps)"

text \<open>
  What the surroundings supply to one iteration of the loop: the value of \<^verbatim>\<open>stop\<close>
  when the condition is evaluated, how each sampler promise of the tick ends, the
  milliseconds that pass until \<^verbatim>\<open>const now = Date.now()\<close>, and the milliseconds by
  which a sleep overruns its delay. The outcomes are those of the promises handed to
  \<^verbatim>\<open>Promise.allSettled\<close>: one \<^verbatim>\<open>sampleEl\<close> per execution endpoint,
  \<^verbatim>\<open>sampleValidators\<close>, \<^verbatim>\<open>sampleNetwork\<close> and \<^verbatim>\<open>samplePerfMetrics\<close>. Time
  passes only while the loop awaits; the clock does not go backwards.
\<close>

record tick_env =
  stop :: bool
  outcomes :: "(error + unit) list"
  busy_ms :: nat
  late_ms :: nat

text \<open>The loop's state: the time of the next reading of the clock, and \<^verbatim>\<open>nextAt\<close>.\<close>

record sched =
  clock :: real
  nextAt :: real

text \<open>What one iteration did, for the trace.\<close>

record tick =
  started :: real
  settled_results :: "unit settled list"
  deadline :: real
  now :: real
  delay :: real

datatype exit = Done | Running

text \<open>\<^verbatim>\<open>Date.now() < endAt\<close>, where \<open>None\<close> is \<^verbatim>\<open>Number.POSITIVE_INFINITY\<close>.\<close>

definition before_end :: "real \<Rightarrow> real option \<Rightarrow> bool" where
  "before_end t endAt = (case endAt of None \<Rightarrow> True | Some e \<Rightarrow> t < e)"

text \<open>
  The body of the \<^verbatim>\<open>while\<close> loop: the samplers are awaited with
  \<^verbatim>\<open>Promise.allSettled\<close>, \<^verbatim>\<open>nextAt += INTERVAL_MS\<close>, the clock is read, and the
  loop sleeps for \<^verbatim>\<open>Math.max(0, nextAt - now)\<close> if that is positive.
\<close>

definition tick_body :: "real \<Rightarrow> tick_env \<Rightarrow> sched \<Rightarrow> error + tick \<times> sched" where
  "tick_body INTERVAL_MS e s =
     (case allSettled (outcomes e) of
        Inl err \<Rightarrow> Inl err
      | Inr rs \<Rightarrow>
          (let nextAt' = nextAt s + INTERVAL_MS;
               now' = clock s + real (busy_ms e);
               delay' = max 0 (nextAt' - now');
               clock' = (if delay' > 0 then now' + delay' + real (late_ms e) else now')
           in Inr (\<lparr>started = clock s, settled_results = rs, deadline = nextAt',
                     now = now', delay = delay'\<rparr>,
                   \<lparr>clock = clock', nextAt = nextAt'\<rparr>)))"

text \<open>
  The \<^verbatim>\<open>while\<close> loop of \<^verbatim>\<open>main\<close>, run on the iterations the list describes. It
  ends with \<open>Done\<close> when the condition \<^verbatim>\<open>!stop && Date.now() < endAt\<close> fails, with
  \<open>Running\<close> when the list is used up before that, and with \<open>Inl\<close> if an awaited
  promise rejects.
\<close>

fun main_loop :: "real \<Rightarrow> real option \<Rightarrow> tick_env list \<Rightarrow> sched \<Rightarrow> error + exit \<times> tick list \<times> sched" where
  "main_loop INTERVAL_MS endAt [] s = Inr (Running, [], s)"
| "main_loop INTERVAL_MS endAt (e # es) s =
     (if \<not> stop e \<and> before_end (clock s) endAt
      then (case tick_body INTERVAL_MS e s of
              Inl err \<Rightarrow> Inl err
            | Inr (t, s1) \<Rightarrow>
                (case main_loop INTERVAL_MS endAt es s1 of
                   Inl err \<Rightarrow> Inl err
                 | Inr (x, ts, s') \<Rightarrow> Inr (x, t # ts, s')))
      else Inr (Done, [], s))"

text \<open>
  \<^verbatim>\<open>main()\<close>: \<open>init\<close> is the outcome of \<^verbatim>\<open>initCsvFiles()\<close>, whose exception
  rejects \<^verbatim>\<open>main\<close>; \<open>t0\<close> is the reading of the clock at the start.
\<close>

definition main :: "error + unit \<Rightarrow> real \<Rightarrow> real \<Rightarrow> real \<Rightarrow> tick_env list \<Rightarrow> error + exit \<times> tick list \<times> sched" where
  "main init DURATION_SEC INTERVAL_MS t0 envs =
     (case init of
        Inl e \<Rightarrow> Inl e
      | Inr u \<Rightarrow>
          (let endAt = (if DURATION_SEC > 0 then Some (t0 + DURATION_SEC * 1000) else None)
           in main_loop INTERVAL_MS endAt envs \<lparr>clock = t0, nextAt = t0\<rparr>))"

section \<open>Example inputs\<close>

text \<open>
  Three consensus endpoints of which the first answers every request with status 500,
  the second with a head slot and the third with an empty body.
\<close>

definition second_answers :: net where
  "second_answers reqs url =
     (if prefix ''http://prysm:3500'' url then Response 500 (Inr JNull) 12
      else if prefix ''http://prysm-2:3500'' url
      then Response 200 (Inr (Json (DObj \<lparr>header_message_slot = Some 100, slot = None,
                                          current_justified_epoch = None, finalized_epoch = None\<rparr>))) 7
      else Response 200 (Inr (Json Falsy)) 5)"

text \<open>A network on which every request is refused.\<close>

definition all_down :: net where
  "all_down reqs url = Rejects (JsError ''TypeError'' ''fetch failed'')"

text \<open>
  A consensus endpoint that answers every request with head slot 100, justified epoch 4
  and finalized epoch 3.
\<close>

definition finalizing :: net where
  "finalizing reqs url =
     Response 200 (Inr (Json (DObj \<lparr>header_message_slot = Some 100, slot = None,
                                    current_justified_epoch = Some 4, finalized_epoch = Some 3\<rparr>))) 7"

text \<open>
  A consensus endpoint that answers every request with three validator entries: one
  with a balance, one with an effective balance only, one with neither.
\<close>

definition two_validators :: net where
  "two_validators reqs url =
     Response 200 (Inr (Json (DArr [\<lparr>balance = Some 32000000000, effective_balance = Some 32000000000\<rparr>,
                                    \<lparr>balance = None, effective_balance = Some 31000000001\<rparr>,
                                    \<lparr>balance = None, effective_balance = None\<rparr>]))) 9"

section \<open>The failover resolver\<close>

lemma beaconGet_requests: "snd (beaconGet nw url path reqs) = reqs @ [request_url url path]"
  by (simp add: beaconGet_def Let_def split: fetched.splits sum.splits)

lemma failover_skip:
  assumes "isl (fst (beaconGet nw u path reqs))"
  shows "beaconGetWithFailover nw (u # rest) path reqs =
         beaconGetWithFailover nw rest path (reqs @ [request_url u path])"
proof -
  obtain a b where ab: "beaconGet nw u path reqs = (a, b)"
    by (cases "beaconGet nw u path reqs")
  from beaconGet_requests[of nw u path reqs] ab have b: "b = reqs @ [request_url u path]"
    by simp
  from assms ab obtain e where "a = Inl e"
    by (cases a) auto
  with ab b show ?thesis by simp
qed

lemma failover_hit:
  assumes "fst (beaconGet nw u path reqs) = Inr r"
  shows "beaconGetWithFailover nw (u # rest) path reqs = (Inr r, reqs @ [request_url u path])"
proof -
  obtain a b where ab: "beaconGet nw u path reqs = (a, b)"
    by (cases "beaconGet nw u path reqs")
  from beaconGet_requests[of nw u path reqs] ab have b: "b = reqs @ [request_url u path]"
    by simp
  from assms ab have "a = Inr r" by simp
  with ab b show ?thesis by simp
qed

text \<open>
  The hypothesis "every endpoint of the list \<open>us\<close> fails when tried in order, starting
  from the request log \<open>reqs\<close>" passes from a list to its tail.
\<close>

lemma failing_tail:
  assumes "\<forall>i<length (u # us). isl (fst (beaconGet nw ((u # us) ! i) path
             (reqs @ map (\<lambda>v. request_url v path) (take i (u # us)))))"
  shows "\<forall>i<length us. isl (fst (beaconGet nw (us ! i) path
             ((reqs @ [request_url u path]) @ map (\<lambda>v. request_url v path) (take i us))))"
proof (intro allI impI)
  fix i assume "i < length us"
  then have "Suc i < length (u # us)" by simp
  with assms have "isl (fst (beaconGet nw ((u # us) ! Suc i) path
      (reqs @ map (\<lambda>v. request_url v path) (take (Suc i) (u # us)))))"
    by blast
  then show "isl (fst (beaconGet nw (us ! i) path
      ((reqs @ [request_url u path]) @ map (\<lambda>v. request_url v path) (take i us))))"
    by simp
qed

lemma failing_head:
  assumes "\<forall>i<length (u # us). isl (fst (beaconGet nw ((u # us) ! i) path
             (reqs @ map (\<lambda>v. request_url v path) (take i (u # us)))))"
  shows "isl (fst (beaconGet nw u path reqs))"
  using assms by fastforce

text \<open>
  Claim C4. The endpoints are tried in the order of the list: when the endpoints of
  \<open>pre\<close> fail one after the other and the next endpoint \<open>e\<close> succeeds with \<open>r\<close>, the
  resolver returns \<open>r\<close>, and the requests it has made are exactly those to \<open>pre\<close> and
  to \<open>e\<close>, in that order: no endpoint of \<open>post\<close> is called.
\<close>

theorem failover_first_success:
  assumes "\<forall>i<length pre. isl (fst (beaconGet nw (pre ! i) path
             (reqs @ map (\<lambda>v. request_url v path) (take i pre))))"
    and "fst (beaconGet nw e path (reqs @ map (\<lambda>v. request_url v path) pre)) = Inr r"
  shows "beaconGetWithFailover nw (pre @ e # post) path reqs =
         (Inr r, reqs @ map (\<lambda>v. request_url v path) (pre @ [e]))"
  using assms
proof (induction pre arbitrary: reqs)
  case Nil
  then have "fst (beaconGet nw e path reqs) = Inr r" by simp
  from failover_hit[OF this] show ?case by simp
next
  case (Cons u us)
  note h0 = failing_head[OF Cons.prems(1)] and rest = failing_tail[OF Cons.prems(1)]
  from Cons.prems(2)
  have hit: "fst (beaconGet nw e path
      ((reqs @ [request_url u path]) @ map (\<lambda>v. request_url v path) us)) = Inr r"
    by simp
  from Cons.IH[OF rest hit] failover_skip[OF h0] show ?case by simp
qed

theorem failover_first_success_witness:
  "beaconGetWithFailover second_answers
     [''http://prysm:3500'', ''http://prysm-2:3500'', ''http://prysm-3:3500'']
     ''/eth/v1/beacon/headers/head'' [] =
   (Inr \<lparr>json = Json (DObj \<lparr>header_message_slot = Some 100, slot = None,
                            current_justified_epoch = None, finalized_epoch = None\<rparr>),
         latency = 7\<rparr>,
    [''http://prysm:3500/eth/v1/beacon/headers/head'',
     ''http://prysm-2:3500/eth/v1/beacon/headers/head''])"
  using failover_first_success [of "[''http://prysm:3500'']" second_answers
      "''/eth/v1/beacon/headers/head''" "[]" "''http://prysm-2:3500''" _
      "[''http://prysm-3:3500'']"]
  by (simp add: beaconGet_def second_answers_def request_url_def strip_slash_def res_ok_def)

text \<open>
  Claim C5, as amended. When every endpoint of the list fails, the resolver fails
  with one error whose message is \<^verbatim>\<open>All CL endpoints failed for\<close> followed by the
  path: the message is built from the operation alone, whatever the endpoints are,
  after each of them has been tried once in order.
\<close>

theorem failover_all_fail_message:
  assumes "\<forall>i<length eps. isl (fst (beaconGet nw (eps ! i) path
             (reqs @ map (\<lambda>v. request_url v path) (take i eps))))"
  shows "beaconGetWithFailover nw eps path reqs =
         (Inl (JsError ''Error'' (''All CL endpoints failed for '' @ path)),
          reqs @ map (\<lambda>v. request_url v path) eps)"
  using assms
proof (induction eps arbitrary: reqs)
  case Nil
  then show ?case by simp
next
  case (Cons u us)
  note h0 = failing_head[OF Cons.prems] and rest = failing_tail[OF Cons.prems]
  from Cons.IH[OF rest] failover_skip[OF h0] show ?case by simp
qed

theorem failover_all_fail_message_witness:
  "beaconGetWithFailover all_down [''http://prysm:3500'', ''http://prysm-2:3500'']
     ''/eth/v1/node/health'' [] =
   (Inl (JsError ''Error'' ''All CL endpoints failed for /eth/v1/node/health''),
    [''http://prysm:3500/eth/v1/node/health'', ''http://prysm-2:3500/eth/v1/node/health''])"
  using failover_all_fail_message [of "[''http://prysm:3500'', ''http://prysm-2:3500'']"
      all_down "''/eth/v1/node/health''" "[]"]
  by (simp add: beaconGet_def all_down_def request_url_def strip_slash_def less_Suc_eq)

text \<open>
  Claim C5 as stated fails: with two endpoints that both refuse the connection, the
  error the resolver throws names neither of them.
\<close>

theorem failover_error_omits_endpoints:
  "fst (beaconGetWithFailover all_down [''http://prysm:3500'', ''http://prysm-2:3500'']
          ''/eth/v1/node/health'' []) =
     Inl (JsError ''Error'' ''All CL endpoints failed for /eth/v1/node/health'')
   \<and> \<not> sublist ''http://prysm:3500''
          (message (JsError ''Error'' ''All CL endpoints failed for /eth/v1/node/health''))
   \<and> \<not> sublist ''http://prysm-2:3500''
          (message (JsError ''Error'' ''All CL endpoints failed for /eth/v1/node/health''))"
proof -
  have "fst (beaconGetWithFailover all_down [''http://prysm:3500'', ''http://prysm-2:3500'']
          ''/eth/v1/node/health'' []) =
     Inl (JsError ''Error'' ''All CL endpoints failed for /eth/v1/node/health'')"
    by (simp add: beaconGet_def all_down_def)
  moreover have "\<not> sublist ''http://prysm:3500''
      ''All CL endpoints failed for /eth/v1/node/health''"
    by code_simp
  moreover have "\<not> sublist ''http://prysm-2:3500''
      ''All CL endpoints failed for /eth/v1/node/health''"
    by code_simp
  ultimately show ?thesis by simp
qed

section \<open>The validator-balance sampler\<close>

lemma fold_add_sum_list: "fold (\<lambda>b acc. acc + b) (xs::real list) a = a + sum_list xs"
  by (induction xs arbitrary: a) simp_all

lemma mean_rounded_eq:
  "mean_rounded arr =
     (if arr = [] then MISSING else of_int (round (sum_list arr / real (length arr))))"
  by (simp add: mean_rounded_def fold_add_sum_list MISSING_def)

lemma sampleValidators_files:
  "files (sampleValidators nw eps ts_ms w) =
     (files w)(VAL_CSV := files w VAL_CSV @
        [[Num ts_ms, Str ''any'',
          Num (avgBal_of (fst (beaconGetWithFailover nw eps
                 ''/eth/v1/beacon/states/head/validators?status=active'' (requests w))))]])"
  by (simp add: sampleValidators_def appendCsvRow_def Let_def split: prod.splits)

text \<open>
  Three entries of which the first has balance 31, the second only an effective
  balance of 32 and the third neither: the mean of 31 and 32 is rounded up to 32.
\<close>

lemma avgBal_example:
  "avgBal_of (Inr \<lparr>json = Json (DArr [\<lparr>balance = Some 31, effective_balance = Some 32\<rparr>,
                                        \<lparr>balance = None, effective_balance = Some 32\<rparr>,
                                        \<lparr>balance = None, effective_balance = None\<rparr>]),
                    latency = 3\<rparr>) = 32"
  by (simp add: avgBal_of_def validator_entries_def mean_rounded_def balances_of_def
      balance_number_def round_def)

text \<open>
  The balances the sampler averages are those of the entries that carry one: the
  \<^verbatim>\<open>balance\<close> field where it is present, the \<^verbatim>\<open>effective_balance\<close> field
  otherwise; an entry with neither is mapped to \<open>-1\<close> and filtered out.
\<close>

lemma balances_of_present:
  "balances_of vs =
     map real (List.map_filter
       (\<lambda>v. case balance v of Some b \<Rightarrow> Some b | None \<Rightarrow> effective_balance v) vs)"
  by (induction vs)
    (auto simp: balances_of_def balance_number_def List.map_filter_simps split: option.splits)

lemma sum_list_map_real: "sum_list (map real bs) = real (sum_list bs)"
  by (induction bs) simp_all

lemma avgBal_of_fetched:
  assumes "bs = (case r of
                   Inl e \<Rightarrow> []
                 | Inr rep \<Rightarrow>
                     (case json rep of
                        Json (DArr vs) \<Rightarrow>
                          List.map_filter
                            (\<lambda>v. case balance v of Some b \<Rightarrow> Some b | None \<Rightarrow> effective_balance v) vs
                      | other \<Rightarrow> []))"
  shows "avgBal_of r =
           (if bs = [] then MISSING
            else of_int (round (real (sum_list bs) / real (length bs))))"
  unfolding assms
  by (simp add: avgBal_of_def validator_entries_def mean_rounded_eq balances_of_present
      sum_list_map_real MISSING_def List.map_filter_simps
      split: sum.splits json.splits jdata.splits)

text \<open>
  Claim C8. Let \<open>r\<close> be the outcome of the failover call for the active validators
  and \<open>bs\<close> the balances fetched: those of the entries of the list in \<open>r\<close> (the
  balance of an entry, or its effective balance when it has no balance), and no
  balance at all when the call failed or the body holds no list. With the sum of the
  balances below \<open>2^52\<close>, the sampler appends one row whose third column is the
  arithmetic mean of \<open>bs\<close> rounded to the nearest integer, and the missing value when
  \<open>bs\<close> is empty.
\<close>

theorem validator_balance_mean:
  assumes "fst (beaconGetWithFailover nw eps
                 ''/eth/v1/beacon/states/head/validators?status=active'' (requests w)) = r"
    and "bs = (case r of
                 Inl e \<Rightarrow> []
               | Inr rep \<Rightarrow>
                   (case json rep of
                      Json (DArr vs) \<Rightarrow>
                        List.map_filter
                          (\<lambda>v. case balance v of Some b \<Rightarrow> Some b | None \<Rightarrow> effective_balance v) vs
                    | other \<Rightarrow> []))"
    and "sum_list bs < 2 ^ 52"
  shows "files (sampleValidators nw eps ts_ms w) VAL_CSV =
           files w VAL_CSV @
             [[Num ts_ms, Str ''any'',
               Num (if bs = [] then MISSING
                    else of_int (round (real (sum_list bs) / real (length bs))))]]"
  using avgBal_of_fetched[OF assms(2)] assms(1)
  by (simp add: sampleValidators_files)

theorem validator_balance_mean_witness:
  "files (sampleValidators two_validators [''http://prysm:3500''] 1000
            \<lparr>requests = [], files = (\<lambda>f. [])\<rparr>) VAL_CSV =
     [[Num 1000, Str ''any'', Num 31500000001]]"
  using validator_balance_mean [where nw = two_validators and eps = "[''http://prysm:3500'']"
      and w = "\<lparr>requests = [], files = (\<lambda>f. [])\<rparr>"
      and bs = "[32000000000, 31000000001]" and ts_ms = 1000]
  by (simp add: beaconGet_def two_validators_def res_ok_def List.map_filter_simps round_def)

text \<open>
  Claim C10. Whatever the network answers and whichever endpoints are configured, the
  sampler appends exactly one row to the validator file, and the \<open>source_container\<close>
  column of that row is the string \<^verbatim>\<open>any\<close>.
\<close>

theorem validator_source_is_any:
  "\<exists>avgBal. files (sampleValidators nw eps ts_ms w) VAL_CSV =
      files w VAL_CSV @ [[Num ts_ms, Str ''any'', Num avgBal]]"
  by (simp add: sampleValidators_files)

section \<open>The network sampler\<close>

lemma curEpoch_nonneg: "0 < spe \<Longrightarrow> 0 \<le> headSlot \<Longrightarrow> 0 \<le> curEpoch_of headSlot spe"
  by (simp add: curEpoch_of_def)

text \<open>
  The head slot and the finalized epoch the sampler works with are the fetched fields,
  or the missing value when the call failed or the field is absent.
\<close>

lemma headSlot_of_fetched:
  assumes "hs = (case r1 of
                   Inl e \<Rightarrow> None
                 | Inr rep \<Rightarrow>
                     (case json rep of
                        Json (DObj ob) \<Rightarrow>
                          (case header_message_slot ob of Some s \<Rightarrow> Some s | None \<Rightarrow> slot ob)
                      | other \<Rightarrow> None))"
  shows "headSlot_of r1 = (case hs of None \<Rightarrow> MISSING | Some h \<Rightarrow> real h)"
  unfolding assms
  by (simp add: headSlot_of_def data_object_def MISSING_def
      split: sum.splits json.splits jdata.splits option.splits)

lemma finEpoch_of_fetched:
  assumes "fe = (case r2 of
                   Inl e \<Rightarrow> None
                 | Inr rep \<Rightarrow>
                     (case json rep of
                        Json (DObj ob) \<Rightarrow> finalized_epoch ob
                      | other \<Rightarrow> None))"
  shows "snd (checkpoints_of r2) = (case fe of None \<Rightarrow> MISSING | Some f \<Rightarrow> real f)"
  unfolding assms
  by (simp add: checkpoints_of_def data_object_def MISSING_def
      split: sum.splits json.splits jdata.splits option.splits)

lemma derived_values:
  assumes "0 < spe"
  shows "curEpoch_of (case hs of None \<Rightarrow> MISSING | Some h \<Rightarrow> real h) (real spe) =
           (case hs of None \<Rightarrow> MISSING | Some h \<Rightarrow> of_int \<lfloor>real h / real spe\<rfloor>)"
    and "finGapSlots_of (case hs of None \<Rightarrow> MISSING | Some h \<Rightarrow> real h)
           (case fe of None \<Rightarrow> MISSING | Some f \<Rightarrow> real f) (real spe) =
           (case hs of
              None \<Rightarrow> MISSING
            | Some h \<Rightarrow>
                (case fe of
                   None \<Rightarrow> MISSING
                 | Some f \<Rightarrow> max 0 (real h - real f * real spe)))"
    and "finGapEpochs_of (case hs of None \<Rightarrow> MISSING | Some h \<Rightarrow> real h)
           (case fe of None \<Rightarrow> MISSING | Some f \<Rightarrow> real f) (real spe) =
           (case hs of
              None \<Rightarrow> MISSING
            | Some h \<Rightarrow>
                (case fe of
                   None \<Rightarrow> MISSING
                 | Some f \<Rightarrow> max 0 (of_int \<lfloor>real h / real spe\<rfloor> - real f)))"
proof -
  have nn: "0 \<le> curEpoch_of (real h) (real spe)" for h
    using assms by (simp add: curEpoch_nonneg)
  show "curEpoch_of (case hs of None \<Rightarrow> MISSING | Some h \<Rightarrow> real h) (real spe) =
           (case hs of None \<Rightarrow> MISSING | Some h \<Rightarrow> of_int \<lfloor>real h / real spe\<rfloor>)"
    by (simp add: curEpoch_of_def MISSING_def split: option.splits)
  show "finGapSlots_of (case hs of None \<Rightarrow> MISSING | Some h \<Rightarrow> real h)
           (case fe of None \<Rightarrow> MISSING | Some f \<Rightarrow> real f) (real spe) =
           (case hs of
              None \<Rightarrow> MISSING
            | Some h \<Rightarrow>
                (case fe of
                   None \<Rightarrow> MISSING
                 | Some f \<Rightarrow> max 0 (real h - real f * real spe)))"
    by (simp add: finGapSlots_of_def finSlot_of_def MISSING_def Let_def split: option.splits)
  show "finGapEpochs_of (case hs of None \<Rightarrow> MISSING | Some h \<Rightarrow> real h)
           (case fe of None \<Rightarrow> MISSING | Some f \<Rightarrow> real f) (real spe) =
           (case hs of
              None \<Rightarrow> MISSING
            | Some h \<Rightarrow>
                (case fe of
                   None \<Rightarrow> MISSING
                 | Some f \<Rightarrow> max 0 (of_int \<lfloor>real h / real spe\<rfloor> - real f)))"
    using nn assms
    by (auto simp: finGapEpochs_of_def curEpoch_of_def MISSING_def Let_def split: option.splits)
qed

lemma sampleNetwork_files:
  assumes "beaconGetWithFailover nw eps ''/eth/v1/beacon/headers/head'' (requests w) = (r1, q1)"
    and "beaconGetWithFailover nw eps ''/eth/v1/beacon/states/head/finality_checkpoints'' q1 = (r2, q2)"
  shows "\<exists>total activationQueueLen exitQueueLen activeValidatorCount participationRate.
     files (sampleNetwork nw eps spe ts_ms part w) NET_CSV =
       files w NET_CSV @
         [[Num ts_ms,
           Num (headSlot_of r1), Num (curEpoch_of (headSlot_of r1) spe),
           Num (fst (checkpoints_of r2)), Num (snd (checkpoints_of r2)),
           Num (finGapSlots_of (headSlot_of r1) (snd (checkpoints_of r2)) spe),
           Num (finGapEpochs_of (headSlot_of r1) (snd (checkpoints_of r2)) spe),
           Num total, Num activationQueueLen, Num exitQueueLen, Num activeValidatorCount,
           Num participationRate]]"
  using assms
  by (simp add: sampleNetwork_def countStatus_def appendCsvRow_def Let_def split: prod.splits)

text \<open>
  Claim C6. Let \<open>hs\<close> be the head slot fetched by the first failover call (the
  member \<^verbatim>\<open>header.message.slot\<close> of the data, else \<^verbatim>\<open>slot\<close>) and \<open>fe\<close> the
  finalized epoch fetched by the second, each absent when its call failed or the member
  is missing. For a positive number of slots per epoch, and values in the range where
  doubles are exact (slots per epoch and head slot below \<open>2^53\<close>, finalized epoch
  times slots per epoch below \<open>2^53\<close>), the sampler appends one row in which \<open>head_slot\<close> and
  \<open>finalized_epoch\<close> are these values or the missing value; \<open>current_epoch\<close> is the
  floor of head slot by slots per epoch when the head slot is present;
  \<open>finality_gap_slots\<close> is the maximum of 0 and head slot minus finalized epoch times
  slots per epoch, and \<open>finality_gap_epochs\<close> the maximum of 0 and current epoch minus
  finalized epoch, when both the head slot and the finalized epoch are present; each
  is the missing value otherwise.
\<close>

theorem network_finality_columns:
  assumes "0 < spe" and "spe < 2 ^ 53"
    and "fst (beaconGetWithFailover nw eps ''/eth/v1/beacon/headers/head'' (requests w)) = r1"
    and "fst (beaconGetWithFailover nw eps ''/eth/v1/beacon/states/head/finality_checkpoints''
               (snd (beaconGetWithFailover nw eps ''/eth/v1/beacon/headers/head'' (requests w)))) = r2"
    and "hs = (case r1 of
                 Inl e \<Rightarrow> None
               | Inr rep \<Rightarrow>
                   (case json rep of
                      Json (DObj ob) \<Rightarrow>
                        (case header_message_slot ob of Some s \<Rightarrow> Some s | None \<Rightarrow> slot ob)
                    | other \<Rightarrow> None))"
    and "fe = (case r2 of
                 Inl e \<Rightarrow> None
               | Inr rep \<Rightarrow>
                   (case json rep of
                      Json (DObj ob) \<Rightarrow> finalized_epoch ob
                    | other \<Rightarrow> None))"
    and "case hs of None \<Rightarrow> True | Some h \<Rightarrow> h < 2 ^ 53"
    and "case fe of None \<Rightarrow> True | Some f \<Rightarrow> f * spe < 2 ^ 53"
  shows "\<exists>justEpoch total activationQueueLen exitQueueLen activeValidatorCount participationRate.
     files (sampleNetwork nw eps (real spe) ts_ms part w) NET_CSV =
       files w NET_CSV @
         [[Num ts_ms,
           Num (case hs of None \<Rightarrow> MISSING | Some h \<Rightarrow> real h),
           Num (case hs of None \<Rightarrow> MISSING | Some h \<Rightarrow> of_int \<lfloor>real h / real spe\<rfloor>),
           Num justEpoch,
           Num (case fe of None \<Rightarrow> MISSING | Some f \<Rightarrow> real f),
           Num (case hs of
                  None \<Rightarrow> MISSING
                | Some h \<Rightarrow>
                    (case fe of
                       None \<Rightarrow> MISSING
                     | Some f \<Rightarrow> max 0 (real h - real f * real spe))),
           Num (case hs of
                  None \<Rightarrow> MISSING
                | Some h \<Rightarrow>
                    (case fe of
                       None \<Rightarrow> MISSING
                     | Some f \<Rightarrow> max 0 (of_int \<lfloor>real h / real spe\<rfloor> - real f))),
           Num total, Num activationQueueLen, Num exitQueueLen, Num activeValidatorCount,
           Num participationRate]]"
proof -
  obtain q1 where a1: "beaconGetWithFailover nw eps ''/eth/v1/beacon/headers/head'' (requests w) = (r1, q1)"
    using assms(3) by (cases "beaconGetWithFailover nw eps ''/eth/v1/beacon/headers/head'' (requests w)") simp
  obtain q2 where a2: "beaconGetWithFailover nw eps ''/eth/v1/beacon/states/head/finality_checkpoints'' q1 = (r2, q2)"
    using assms(4) a1
    by (cases "beaconGetWithFailover nw eps ''/eth/v1/beacon/states/head/finality_checkpoints'' q1") simp
  note row = sampleNetwork_files[OF a1 a2, of "real spe" ts_ms part]
  note h = headSlot_of_fetched[OF assms(5)] and f = finEpoch_of_fetched[OF assms(6)]
  note d = derived_values[OF assms(1)]
  from row show ?thesis
    unfolding h f d by blast
qed

theorem network_finality_columns_witness:
  "\<exists>justEpoch total activationQueueLen exitQueueLen activeValidatorCount participationRate.
     files (sampleNetwork finalizing [''http://prysm:3500''] 6 1000 []
              \<lparr>requests = [], files = (\<lambda>f. [])\<rparr>) NET_CSV =
       [[Num 1000, Num 100, Num 16, Num justEpoch, Num 3, Num 82, Num 13,
         Num total, Num activationQueueLen, Num exitQueueLen, Num activeValidatorCount,
         Num participationRate]]"
  using network_finality_columns [where spe = 6 and nw = finalizing
      and eps = "[''http://prysm:3500'']" and w = "\<lparr>requests = [], files = (\<lambda>f. [])\<rparr>"
      and hs = "Some 100" and fe = "Some 3" and ts_ms = 1000 and part = "[]"
      and ?r1.0 = "Inr \<lparr>json = Json (DObj \<lparr>header_message_slot = Some 100, slot = None,
                      current_justified_epoch = Some 4, finalized_epoch = Some 3\<rparr>), latency = 7\<rparr>"
      and ?r2.0 = "Inr \<lparr>json = Json (DObj \<lparr>header_message_slot = Some 100, slot = None,
                      current_justified_epoch = Some 4, finalized_epoch = Some 3\<rparr>), latency = 7\<rparr>"]
  by (simp add: beaconGet_def finalizing_def res_ok_def)

text \<open>
  Claim C2, at an input where the code departs from it. The bucket
  \<^verbatim>\<open>pending_initialized\<close> is fetched and is empty (its count is the number 0), the
  three other calls fail (their counts are the missing value): the total the code
  computes is the missing value, although one bucket succeeded and the sum of the
  buckets that succeeded is 0.
\<close>

theorem total_zero_reported_missing:
  "count_of (Inr \<lparr>json = Json (DArr []), latency = 3\<rparr>) = 0
   \<and> count_of (Inl (JsError ''Error'' ''All CL endpoints failed for /eth/v1/beacon/states/head/validators?status=pending_queued'')) = MISSING
   \<and> total_of 0 MISSING MISSING MISSING = MISSING"
  by (simp add: count_of_def total_of_def MISSING_def)

text \<open>The example of the specification: a failed bucket is left out of the sum.\<close>

lemma total_of_example:
  "total_of 5 MISSING 10 2 = 17 \<and> activationQueueLen_of 5 MISSING = MISSING"
  by (simp add: total_of_def MISSING_def activationQueueLen_of_def)

text \<open>
  Two endpoints of which the first answers 500 and the second a head slot of 100:
  the row carries the second endpoint's head slot.
\<close>

lemma sampleNetwork_example:
  "files (sampleNetwork second_answers [''http://prysm:3500'', ''http://prysm-2:3500''] 6 1000 []
            \<lparr>requests = [], files = (\<lambda>f. [])\<rparr>) NET_CSV =
     [[Num 1000, Num 100, Num 16, Num (- 1), Num (- 1), Num (- 1), Num (- 1),
       Num (- 1), Num (- 1), Num (- 1), Num (- 1), Num (- 1)]]"
  by (simp add: sampleNetwork_def Let_def beaconGet_def second_answers_def request_url_def
      strip_slash_def res_ok_def countStatus_def appendCsvRow_def headSlot_of_def data_object_def
      checkpoints_of_def count_of_def total_of_def activationQueueLen_of_def
      getParticipationRate_def curEpoch_of_def finGapSlots_of_def finGapEpochs_of_def finSlot_of_def)

section \<open>The instance reconciler and the performance sampler\<close>

lemma init_data_eq:
  "init_data =
     [(''prysm-1'', \<lambda>k. MISSING), (''prysm-2'', \<lambda>k. MISSING), (''prysm-3'', \<lambda>k. MISSING),
      (''geth-1'', \<lambda>k. MISSING), (''geth-2'', \<lambda>k. MISSING), (''geth-3'', \<lambda>k. MISSING)]"
  by (simp add: init_data_def expectedContainers_def PROM_INSTANCE_MAP_def)

lemma map_entry_keys: "map fst (AList.map_entry k f xs) = map fst xs"
  by (induction xs) auto

lemma update_point_keys: "map fst (update_point key r d) = map fst d"
  by (simp add: update_point_def Let_def map_entry_keys)

lemma update_keys: "map fst (update res key d) = map fst d"
  unfolding update_def by (induction res arbitrary: d) (simp_all add: update_point_keys)

text \<open>
  Claim C3, as amended. Merging any list of points leaves the identities of the
  records as they were. For a point whose instance label has no entry in the table the
  raw label is the identity under which a record is looked up: if a record of that
  name exists, the point's value is stored in it; if none exists, the records are
  unchanged.
\<close>

theorem unmapped_point_needs_record:
  assumes "map_of PROM_INSTANCE_MAP (instance_label r) = None"
  shows "map fst (update res key d) = map fst d
     \<and> map_of (update_point key r d) =
        (case map_of d (instance_label r) of
           None \<Rightarrow> map_of d
         | Some m \<Rightarrow> (map_of d)(instance_label r \<mapsto> m(key := pvalue r)))"
proof -
  from assms have c: "getContainer r = instance_label r"
    by (simp add: getContainer_def)
  have "map_of (update_point key r d) =
        (case map_of d (instance_label r) of
           None \<Rightarrow> map_of d
         | Some m \<Rightarrow> (map_of d)(instance_label r \<mapsto> m(key := pvalue r)))"
    by (auto simp: update_point_def c Let_def map_of_map_entry split: option.splits)
  then show ?thesis
    by (simp add: update_keys)
qed

theorem unmapped_point_needs_record_witness:
  "map fst (update [\<lparr>instance_label = ''geth-1'', pvalue = 42\<rparr>] M2 init_data) = expectedContainers
   \<and> map_of (update_point M2 \<lparr>instance_label = ''geth-1'', pvalue = 42\<rparr> init_data) ''geth-1''
      = Some ((\<lambda>k. MISSING)(M2 := 42))"
  using unmapped_point_needs_record [of "\<lparr>instance_label = ''geth-1'', pvalue = 42\<rparr>"
      "[\<lparr>instance_label = ''geth-1'', pvalue = 42\<rparr>]" M2 init_data]
  by (simp add: init_data_eq expectedContainers_def PROM_INSTANCE_MAP_def)

text \<open>
  Claim C3 as stated fails: the label \<^verbatim>\<open>10.0.0.7:9100\<close> has no entry in the table,
  and merging a point that carries it changes nothing; no record of that identity
  exists afterwards.
\<close>

theorem unmapped_point_dropped:
  "map_of PROM_INSTANCE_MAP ''10.0.0.7:9100'' = None
   \<and> update [\<lparr>instance_label = ''10.0.0.7:9100'', pvalue = 5\<rparr>] M1 init_data = init_data
   \<and> map_of (update [\<lparr>instance_label = ''10.0.0.7:9100'', pvalue = 5\<rparr>] M1 init_data)
        ''10.0.0.7:9100'' = None"
  by (simp add: update_def update_point_def getContainer_def init_data_eq PROM_INSTANCE_MAP_def)

text \<open>
  The rows the writing loop produces from the initial records: three rows of nine
  missing values for the consensus file and three rows of six for the execution file.
\<close>

lemma write_rows_init_data:
  "files (write_rows ts init_data w) =
     (files w)
       (PERF_CL_CSV := files w PERF_CL_CSV @
          map (\<lambda>c. Num ts # Str c # replicate 9 (Num MISSING)) [''prysm-1'', ''prysm-2'', ''prysm-3''],
        PERF_EL_CSV := files w PERF_EL_CSV @
          map (\<lambda>c. Num ts # Str c # replicate 6 (Num MISSING)) [''geth-1'', ''geth-2'', ''geth-3''])"
  by (simp add: write_rows_def write_row_def init_data_eq appendCsvRow_def Let_def
      numeral_eq_Suc fun_upd_twist)

text \<open>
  Claim C1, where the code departs from it. Whatever the nine queries return (the
  empty array from each of them when every query fails), the call
  \<^verbatim>\<open>update(res8, 'm8')\<close> evaluates a name that the array pattern does not bind: the
  sampler is rejected with a ReferenceError before the writing loop, and no row is
  appended to any file.
\<close>

theorem samplePerfMetrics_rejects:
  "samplePerfMetrics ts_ms rs w = (Inl (JsError ''ReferenceError'' ''res8 is not defined''), w)"
  by (simp add: samplePerfMetrics_def bindings_def update_calls_def)

section \<open>The scheduling loop\<close>

lemma tick_body_eq:
  "tick_body P e s =
     Inr (\<lparr>started = clock s,
           settled_results = map (\<lambda>p. case p of Inl er \<Rightarrow> Rejected er | Inr v \<Rightarrow> Fulfilled v) (outcomes e),
           deadline = nextAt s + P,
           now = clock s + real (busy_ms e),
           delay = max 0 (nextAt s + P - (clock s + real (busy_ms e)))\<rparr>,
          \<lparr>clock = (if nextAt s + P - (clock s + real (busy_ms e)) > 0
                    then nextAt s + P + real (late_ms e)
                    else clock s + real (busy_ms e)),
           nextAt = nextAt s + P\<rparr>)"
  by (simp add: tick_body_def allSettled_def Let_def max_def)

lemma main_loop_Cons:
  "main_loop P endAt (e # es) s =
     (if \<not> stop e \<and> before_end (clock s) endAt
      then (case main_loop P endAt es (snd (projr (tick_body P e s))) of
              Inl err \<Rightarrow> Inl err
            | Inr (x, ts, s') \<Rightarrow> Inr (x, fst (projr (tick_body P e s)) # ts, s'))
      else Inr (Done, [], s))"
proof -
  obtain t s1 where "tick_body P e s = Inr (t, s1)"
    using tick_body_eq[of P e s] by blast
  then show ?thesis by (simp split: sum.splits)
qed

declare main_loop.simps(2) [simp del]

lemma main_loop_ConsE:
  assumes "main_loop P endAt (e # es) s = Inr (x, ts, s')" and "ts \<noteq> []"
  obtains ts' where "main_loop P endAt es (snd (projr (tick_body P e s))) = Inr (x, ts', s')"
    and "ts = fst (projr (tick_body P e s)) # ts'"
  using assms unfolding main_loop_Cons by (auto split: if_splits sum.splits)

lemma main_loop_total: "\<not> isl (main_loop P endAt envs s)"
proof (induction envs arbitrary: s)
  case Nil
  show ?case by simp
next
  case (Cons e es)
  show ?case
    using Cons.IH[of "snd (projr (tick_body P e s))"]
    unfolding main_loop_Cons by (auto split: sum.splits)
qed

lemma main_loop_deadline:
  assumes "main_loop P endAt envs s = Inr (x, ts, s')" and "i < length ts"
  shows "deadline (ts ! i) = nextAt s + real (Suc i) * P"
  using assms
proof (induction envs arbitrary: s ts i)
  case Nil
  then show ?case by simp
next
  case (Cons e es)
  let ?t = "fst (projr (tick_body P e s))" and ?s1 = "snd (projr (tick_body P e s))"
  from Cons.prems(2) have "ts \<noteq> []" by auto
  from main_loop_ConsE[OF Cons.prems(1) this]
  obtain ts' where run: "main_loop P endAt es ?s1 = Inr (x, ts', s')" and ts: "ts = ?t # ts'"
    by blast
  show ?case
  proof (cases i)
    case 0
    with ts show ?thesis by (simp add: tick_body_eq)
  next
    case (Suc j)
    with Cons.prems(2) ts have "j < length ts'" by simp
    from Cons.IH[OF run this] have "deadline (ts' ! j) = nextAt ?s1 + real (Suc j) * P" .
    with Suc ts show ?thesis by (simp add: tick_body_eq algebra_simps)
  qed
qed

lemma main_loop_first_started:
  assumes "main_loop P endAt envs s = Inr (x, ts, s')" and "ts \<noteq> []"
  shows "started (ts ! 0) = clock s"
proof (cases envs)
  case Nil
  with assms show ?thesis by simp
next
  case (Cons e es)
  from main_loop_ConsE[OF assms(1)[unfolded Cons] assms(2)]
  obtain ts' where "ts = fst (projr (tick_body P e s)) # ts'" by blast
  then show ?thesis by (simp add: tick_body_eq)
qed

lemma main_loop_delay:
  assumes "main_loop P endAt envs s = Inr (x, ts, s')" and "i < length ts"
  shows "delay (ts ! i) = max 0 (deadline (ts ! i) - now (ts ! i))"
  using assms
proof (induction envs arbitrary: s ts i)
  case Nil
  then show ?case by simp
next
  case (Cons e es)
  let ?t = "fst (projr (tick_body P e s))" and ?s1 = "snd (projr (tick_body P e s))"
  from Cons.prems(2) have "ts \<noteq> []" by auto
  from main_loop_ConsE[OF Cons.prems(1) this]
  obtain ts' where run: "main_loop P endAt es ?s1 = Inr (x, ts', s')" and ts: "ts = ?t # ts'"
    by blast
  show ?case
  proof (cases i)
    case 0
    with ts show ?thesis by (simp add: tick_body_eq)
  next
    case (Suc j)
    with Cons.prems(2) ts have "j < length ts'" by simp
    from Cons.IH[OF run this] Suc ts show ?thesis by simp
  qed
qed

lemma main_loop_overrun:
  assumes "main_loop P endAt envs s = Inr (x, ts, s')" and "i < length ts"
    and "nextAt s \<le> clock s" and "P < now (ts ! i) - started (ts ! i)"
  shows "delay (ts ! i) = 0 \<and> (Suc i < length ts \<longrightarrow> started (ts ! Suc i) = now (ts ! i))"
  using assms
proof (induction envs arbitrary: s ts i)
  case Nil
  then show ?case by simp
next
  case (Cons e es)
  let ?t = "fst (projr (tick_body P e s))" and ?s1 = "snd (projr (tick_body P e s))"
  from Cons.prems(2) have "ts \<noteq> []" by auto
  from main_loop_ConsE[OF Cons.prems(1) this]
  obtain ts' where run: "main_loop P endAt es ?s1 = Inr (x, ts', s')" and ts: "ts = ?t # ts'"
    by blast
  have inv: "nextAt ?s1 \<le> clock ?s1"
    by (simp add: tick_body_eq)
  show ?case
  proof (cases i)
    case 0
    with Cons.prems(4) ts have over: "P < now ?t - started ?t" by simp
    have z: "delay ?t = 0"
      using over Cons.prems(3) by (simp add: tick_body_eq)
    have n: "started (ts' ! 0) = now ?t" if ne: "ts' \<noteq> []"
    proof -
      from over Cons.prems(3) have "clock ?s1 = now ?t"
        by (simp add: tick_body_eq)
      with main_loop_first_started[OF run ne] show ?thesis by simp
    qed
    from 0 ts z n show ?thesis by auto
  next
    case (Suc j)
    with Cons.prems(2) ts have j: "j < length ts'" by simp
    from Cons.prems(4) Suc ts have over: "P < now (ts' ! j) - started (ts' ! j)" by simp
    from Cons.IH[OF run j inv over] Suc ts show ?thesis by simp
  qed
qed

text \<open>
  Claim C7. In a run of \<^verbatim>\<open>main\<close> the deadline of the tick with index \<open>i\<close> is the
  start time plus \<open>i + 1\<close> periods, whatever the clock showed in between; the delay is
  the positive part of deadline minus now; and when the processing of a tick took
  longer than one period, the delay is 0 and the next tick, if there is one, starts
  at the very reading of the clock taken after the processing.
\<close>

theorem deadlines_anchored:
  assumes "main (Inr ()) D P t0 envs = Inr (x, ts, s')" and "i < length ts"
  shows "deadline (ts ! i) = t0 + real (i + 1) * P
       \<and> delay (ts ! i) = max 0 (deadline (ts ! i) - now (ts ! i))
       \<and> (P < now (ts ! i) - started (ts ! i) \<longrightarrow>
            delay (ts ! i) = 0 \<and> (i + 1 < length ts \<longrightarrow> started (ts ! (i + 1)) = now (ts ! i)))"
proof -
  let ?endAt = "if D > 0 then Some (t0 + D * 1000) else None"
  let ?s = "\<lparr>clock = t0, nextAt = t0\<rparr>"
  from assms(1) have run: "main_loop P ?endAt envs ?s = Inr (x, ts, s')"
    by (simp add: main_def Let_def)
  have "deadline (ts ! i) = t0 + real (i + 1) * P"
    using main_loop_deadline[OF run assms(2)] by simp
  moreover note main_loop_delay[OF run assms(2)]
  moreover have "delay (ts ! i) = 0 \<and> (i + 1 < length ts \<longrightarrow> started (ts ! (i + 1)) = now (ts ! i))"
    if "P < now (ts ! i) - started (ts ! i)"
    using main_loop_overrun[OF run assms(2) _ that] by simp
  ultimately show ?thesis by blast
qed

theorem deadlines_anchored_witness:
  "main (Inr ()) 0 1000 5000
     [\<lparr>stop = False, outcomes = [], busy_ms = 1300, late_ms = 0\<rparr>,
      \<lparr>stop = False, outcomes = [], busy_ms = 200, late_ms = 2\<rparr>,
      \<lparr>stop = True, outcomes = [], busy_ms = 0, late_ms = 0\<rparr>] =
   Inr (Done,
        [\<lparr>started = 5000, settled_results = [], deadline = 6000, now = 6300, delay = 0\<rparr>,
         \<lparr>started = 6300, settled_results = [], deadline = 7000, now = 6500, delay = 500\<rparr>],
        \<lparr>clock = 7002, nextAt = 7000\<rparr>)
   \<and> deadline \<lparr>started = 5000, settled_results = [], deadline = 6000, now = 6300, delay = 0\<rparr> = 5000 + 1 * 1000
   \<and> delay \<lparr>started = 5000, settled_results = [], deadline = 6000, now = 6300, delay = 0\<rparr> = 0"
proof -
  have run: "main (Inr ()) 0 1000 5000
     [\<lparr>stop = False, outcomes = [], busy_ms = 1300, late_ms = 0\<rparr>,
      \<lparr>stop = False, outcomes = [], busy_ms = 200, late_ms = 2\<rparr>,
      \<lparr>stop = True, outcomes = [], busy_ms = 0, late_ms = 0\<rparr>] =
   Inr (Done,
        [\<lparr>started = 5000, settled_results = [], deadline = 6000, now = 6300, delay = 0\<rparr>,
         \<lparr>started = 6300, settled_results = [], deadline = 7000, now = 6500, delay = 500\<rparr>],
        \<lparr>clock = 7002, nextAt = 7000\<rparr>)"
    by (simp add: main_def main_loop.simps tick_body_def allSettled_def before_end_def Let_def)
  from deadlines_anchored[OF run, of 0] deadlines_anchored[OF run, of 1] run
  show ?thesis by simp
qed


lemma main_loop_settled:
  assumes "main_loop P endAt envs s = Inr (x, ts, s')"
  shows "map settled_results ts =
         map (\<lambda>e. map (\<lambda>p. case p of Inl er \<Rightarrow> Rejected er | Inr v \<Rightarrow> Fulfilled v) (outcomes e))
           (take (length ts) envs)"
  using assms
proof (induction envs arbitrary: s ts)
  case Nil
  then show ?case by simp
next
  case (Cons e es)
  show ?case
  proof (cases "ts = []")
    case True
    then show ?thesis by simp
  next
    case False
    from main_loop_ConsE[OF Cons.prems False]
    obtain ts' where run: "main_loop P endAt es (snd (projr (tick_body P e s))) = Inr (x, ts', s')"
      and ts: "ts = fst (projr (tick_body P e s)) # ts'"
      by blast
    from Cons.IH[OF run] ts show ?thesis by (simp add: tick_body_eq)
  qed
qed

lemma main_loop_outcomes:
  "main_loop P endAt (map (\<lambda>e. e\<lparr>outcomes := map (\<lambda>p. Inr ()) (outcomes e)\<rparr>) envs) s =
   map_sum id (\<lambda>(x, ts, s'). (x, map (\<lambda>t. t\<lparr>settled_results := map (\<lambda>r. Fulfilled ()) (settled_results t)\<rparr>) ts, s'))
     (main_loop P endAt envs s)"
proof (induction envs arbitrary: s)
  case Nil
  show ?case by simp
next
  case (Cons e es)
  let ?e' = "e\<lparr>outcomes := map (\<lambda>p. Inr ()) (outcomes e)\<rparr>"
  have s1: "snd (projr (tick_body P ?e' s)) = snd (projr (tick_body P e s))"
    by (simp add: tick_body_eq)
  have t1: "fst (projr (tick_body P ?e' s)) =
            (fst (projr (tick_body P e s)))\<lparr>settled_results := map (\<lambda>r. Fulfilled ()) (settled_results (fst (projr (tick_body P e s))))\<rparr>"
    by (simp add: tick_body_eq comp_def)
  show ?case
    using Cons.IH[of "snd (projr (tick_body P e s))"]
    by (simp add: main_loop_Cons s1 t1 split: sum.splits)
qed

text \<open>
  Claim C9. \<^verbatim>\<open>main\<close> is rejected only if the initialisation of the files throws.
  Once the loop runs, every outcome of every sampler of a tick, fulfilled or rejected,
  is recorded as settled; and the run with the outcomes as they are is the run in which
  every sampler is fulfilled, up to the recorded outcomes: the same exit, the same
  number of ticks, the same times and the same final state.
\<close>

theorem sampler_failures_contained:
  "isl (main init D P t0 envs) = isl init
   \<and> (case main (Inr ()) D P t0 envs of
        Inl err \<Rightarrow> False
      | Inr (x, ts, s') \<Rightarrow>
          map settled_results ts =
          map (\<lambda>e. map (\<lambda>p. case p of Inl er \<Rightarrow> Rejected er | Inr v \<Rightarrow> Fulfilled v) (outcomes e))
            (take (length ts) envs))
   \<and> main (Inr ()) D P t0 (map (\<lambda>e. e\<lparr>outcomes := map (\<lambda>p. Inr ()) (outcomes e)\<rparr>) envs) =
       map_sum id (\<lambda>(x, ts, s'). (x, map (\<lambda>t. t\<lparr>settled_results := map (\<lambda>r. Fulfilled ()) (settled_results t)\<rparr>) ts, s'))
         (main (Inr ()) D P t0 envs)"
proof (intro conjI)
  show "isl (main init D P t0 envs) = isl init"
    using main_loop_total by (cases init) (simp_all add: main_def Let_def)
  show "case main (Inr ()) D P t0 envs of
        Inl err \<Rightarrow> False
      | Inr (x, ts, s') \<Rightarrow>
          map settled_results ts =
          map (\<lambda>e. map (\<lambda>p. case p of Inl er \<Rightarrow> Rejected er | Inr v \<Rightarrow> Fulfilled v) (outcomes e))
            (take (length ts) envs)"
  proof (cases "main (Inr ()) D P t0 envs")
    case (Inl err)
    then have "isl (main_loop P (if D > 0 then Some (t0 + D * 1000) else None) envs \<lparr>clock = t0, nextAt = t0\<rparr>)"
      by (simp add: main_def Let_def)
    with main_loop_total show ?thesis by blast
  next
    case (Inr r)
    obtain x ts s' where r: "r = (x, ts, s')" by (cases r)
    from Inr r have "main_loop P (if D > 0 then Some (t0 + D * 1000) else None) envs \<lparr>clock = t0, nextAt = t0\<rparr> = Inr (x, ts, s')"
      by (simp add: main_def Let_def)
    from main_loop_settled[OF this] Inr r show ?thesis by simp
  qed
  show "main (Inr ()) D P t0 (map (\<lambda>e. e\<lparr>outcomes := map (\<lambda>p. Inr ()) (outcomes e)\<rparr>) envs) =
       map_sum id (\<lambda>(x, ts, s'). (x, map (\<lambda>t. t\<lparr>settled_results := map (\<lambda>r. Fulfilled ()) (settled_results t)\<rparr>) ts, s'))
         (main (Inr ()) D P t0 envs)"
    by (simp add: main_def Let_def main_loop_outcomes)
qed


theorem sampler_failures_contained_witness:
  "main (Inr ()) 0 1000 5000
     [\<lparr>stop = False,
       outcomes = [Inr (), Inl (JsError ''ReferenceError'' ''res8 is not defined'')],
       busy_ms = 40, late_ms = 1\<rparr>,
      \<lparr>stop = True, outcomes = [], busy_ms = 0, late_ms = 0\<rparr>] =
   Inr (Done,
        [\<lparr>started = 5000,
          settled_results = [Fulfilled (), Rejected (JsError ''ReferenceError'' ''res8 is not defined'')],
          deadline = 6000, now = 5040, delay = 960\<rparr>],
        \<lparr>clock = 6001, nextAt = 6000\<rparr>)
   \<and> main (Inr ()) 0 1000 5000
     [\<lparr>stop = False, outcomes = [Inr (), Inr ()], busy_ms = 40, late_ms = 1\<rparr>,
      \<lparr>stop = True, outcomes = [], busy_ms = 0, late_ms = 0\<rparr>] =
   Inr (Done,
        [\<lparr>started = 5000, settled_results = [Fulfilled (), Fulfilled ()],
          deadline = 6000, now = 5040, delay = 960\<rparr>],
        \<lparr>clock = 6001, nextAt = 6000\<rparr>)"
proof -
  have run: "main (Inr ()) 0 1000 5000
     [\<lparr>stop = False,
       outcomes = [Inr (), Inl (JsError ''ReferenceError'' ''res8 is not defined'')],
       busy_ms = 40, late_ms = 1\<rparr>,
      \<lparr>stop = True, outcomes = [], busy_ms = 0, late_ms = 0\<rparr>] =
   Inr (Done,
        [\<lparr>started = 5000,
          settled_results = [Fulfilled (), Rejected (JsError ''ReferenceError'' ''res8 is not defined'')],
          deadline = 6000, now = 5040, delay = 960\<rparr>],
        \<lparr>clock = 6001, nextAt = 6000\<rparr>)"
    by (simp add: main_def main_loop_Cons tick_body_eq before_end_def Let_def)
  from sampler_failures_contained [of "Inr ()" 0 1000 5000
      "[\<lparr>stop = False,
         outcomes = [Inr (), Inl (JsError ''ReferenceError'' ''res8 is not defined'')],
         busy_ms = 40, late_ms = 1\<rparr>,
        \<lparr>stop = True, outcomes = [], busy_ms = 0, late_ms = 0\<rparr>]"] run
  show ?thesis by simp
qed

end
